theory Spec2Isabelle
  imports Complex_Main
begin

section \<open>The game ledger of app.py\<close>

text \<open>
  The ledger is a pandas data frame with the columns of \<open>CAMPOS\<close>:
  \<open>nome, qtd_ganha, qtd_ficar, qtd_credito, valor_credito\<close>. A frame is modelled as the
  list of its rows, in index order; a row is a record with one field per column.

  \<^item> Names are Python strings. They are modelled as ASCII strings: \<open>lower\<close> maps the
    letters A to Z and \<open>strip\<close> removes the ASCII characters Python counts as white space
    (code points 9 to 13 and 28 to 32). Case mapping beyond ASCII is not modelled.
  \<^item> The three quantity columns hold integers (\<open>astype(int)\<close> on load, \<open>int(...)\<close> in
    the upsert). They are unbounded integers here; the 64 bit range of the pandas column is
    not modelled.
  \<^item> \<open>valor_credito\<close> is a float column. A cell is \<open>None\<close> for NaN (a missing value, the
    case \<open>fillna\<close> handles) and \<open>Some v\<close> otherwise, with \<open>v\<close> a real number: rounding
    and infinities are not modelled.
\<close>

subsection \<open>Strings\<close>





subsection \<open>Rows and tables\<close>

record jogo =
  nome :: string
  qtd_ganha :: int
  qtd_ficar :: int
  qtd_credito :: int
  valor_credito :: "real option"

type_synonym table = "jogo list"

definition DEFAULT_CREDITO :: real where
  "DEFAULT_CREDITO = 59"

subsection \<open>recalc_df\<close>

text \<open>
  \<^verbatim>\<open>df["qtd_credito"] = (df["qtd_ganha"] - df["qtd_ficar"]).clip(lower=0)\<close>
  \<^verbatim>\<open>df["valor_credito"] = df["valor_credito"].fillna(DEFAULT_CREDITO).replace(0, DEFAULT_CREDITO)\<close>
\<close>

definition clip_lower :: "int \<Rightarrow> int \<Rightarrow> int" where
  "clip_lower lo x = (if x < lo then lo else x)"

definition fillna :: "real \<Rightarrow> real option \<Rightarrow> real option" where
  "fillna d v = (case v of None \<Rightarrow> Some d | Some x \<Rightarrow> Some x)"

definition replace_val :: "real \<Rightarrow> real \<Rightarrow> real option \<Rightarrow> real option" where
  "replace_val a b v = (case v of None \<Rightarrow> None | Some x \<Rightarrow> if x = a then Some b else Some x)"

definition recalc_row :: "jogo \<Rightarrow> jogo" where
  "recalc_row r =
     r\<lparr>qtd_credito := clip_lower 0 (qtd_ganha r - qtd_ficar r),
       valor_credito := replace_val 0 DEFAULT_CREDITO (fillna DEFAULT_CREDITO (valor_credito r))\<rparr>"

definition recalc_df :: "table \<Rightarrow> table" where
  "recalc_df df = map recalc_row df"

subsection \<open>upsert_jogo\<close>


definition atualizar :: "int option \<Rightarrow> int option \<Rightarrow> real option \<Rightarrow> jogo \<Rightarrow> jogo" where
  "atualizar g f v r =
     (let r1 = (case g of None \<Rightarrow> r | Some x \<Rightarrow> r\<lparr>qtd_ganha := qtd_ganha r + x\<rparr>);
          r2 = (case f of None \<Rightarrow> r1 | Some x \<Rightarrow> r1\<lparr>qtd_ficar := x\<rparr>)
      in (case v of None \<Rightarrow> r2 | Some x \<Rightarrow> r2\<lparr>valor_credito := Some x\<rparr>))"


subsection \<open>carregar_df\<close>

















subsection \<open>The reports\<close>











subsection \<open>The comparison of names in the specification\<close>





subsection \<open>Example tables\<close>

definition catan :: jogo where
  "catan = \<lparr>nome = ''Catan'', qtd_ganha = 3, qtd_ficar = 1, qtd_credito = 2, valor_credito = Some 10\<rparr>"

definition risk :: jogo where
  "risk = \<lparr>nome = ''Risk'', qtd_ganha = 2, qtd_ficar = 0, qtd_credito = 2, valor_credito = Some 59\<rparr>"


text \<open>A table whose derived columns are out of date: a stale credit and no price, a zero price.\<close>

definition stale :: table where
  "stale = [catan\<lparr>qtd_credito := 7, valor_credito := None\<rparr>,
            risk\<lparr>qtd_ficar := 5, valor_credito := Some 0\<rparr>]"





section \<open>Properties of strip and lower\<close>









section \<open>Rows after recalc_df and after an update\<close>

lemma recalc_row_idem: "recalc_row (recalc_row r) = recalc_row r"
  by (cases "valor_credito r")
    (simp_all add: recalc_row_def fillna_def replace_val_def DEFAULT_CREDITO_def)




lemma nome_recalc_row [simp]: "nome (recalc_row r) = nome r"
  by (simp add: recalc_row_def)

lemma qtd_ganha_recalc_row [simp]: "qtd_ganha (recalc_row r) = qtd_ganha r"
  by (simp add: recalc_row_def)

lemma qtd_ficar_recalc_row [simp]: "qtd_ficar (recalc_row r) = qtd_ficar r"
  by (simp add: recalc_row_def)



lemma length_recalc_df [simp]: "length (recalc_df T) = length T"
  by (simp add: recalc_df_def)


lemma nome_atualizar [simp]: "nome (atualizar g f v r) = nome r"
  by (cases g; cases f; cases v) (simp_all add: atualizar_def)














section \<open>recalc_df: the invariant and idempotence\<close>




text \<open>
  C7. The recomputation is idempotent: on every table, applying \<open>recalc_df\<close> twice gives
  the table that applying it once gives.
\<close>

theorem recalc_df_idempotent: "recalc_df (recalc_df T) = recalc_df T"
  by (simp add: recalc_df_def recalc_row_idem)

theorem recalc_df_idempotent_witness:
  "recalc_df (recalc_df stale) = recalc_df stale"
  by (rule recalc_df_idempotent)

section \<open>upsert_jogo\<close>















section \<open>carregar_df\<close>







section \<open>The reports\<close>




end
